theory Spec2Isabelle
  imports Complex_Main "HOL-Library.Sublist"
begin

section \<open>The category analysis of \<open>analyze_categories.py\<close>\<close>

text \<open>
  The script reads a word-to-categories dictionary, inverts it into a
  category-to-words dictionary, keeps the categories with fewer than four words
  whose names start with neither \<open>Starts with\<close> nor \<open>Ends with\<close>, sorts them by
  size, writes them out and prints summary statistics.

  A Python \<open>dict\<close> keeps its keys in insertion order and the script depends on
  that order, so a dictionary is an association list, in insertion order. The
  dictionary decoded from \<open>data/words.json\<close> has pairwise different keys; where a
  property needs that, it is the hypothesis \<open>distinct (map fst words_data)\<close>.
\<close>

subsection \<open>Dictionaries\<close>

type_synonym ('k, 'v) dict = "('k \<times> 'v) list"

text \<open>\<open>d[k] = v\<close>: an existing key keeps its position and gets the new value, a
  new key goes to the end.\<close>

fun dict_set :: "'k \<Rightarrow> 'v \<Rightarrow> ('k, 'v) dict \<Rightarrow> ('k, 'v) dict" where
  "dict_set k v [] = [(k, v)]"
| "dict_set k v ((k', v') # d) =
     (if k' = k then (k', v) # d else (k', v') # dict_set k v d)"

text \<open>\<open>d[k].append(x)\<close> on a \<open>defaultdict(list)\<close>: a missing key is created
  with the empty list, at the end, before the element is appended.\<close>

fun dict_append :: "'k \<Rightarrow> 'v \<Rightarrow> ('k, 'v list) dict \<Rightarrow> ('k, 'v list) dict" where
  "dict_append k x [] = [(k, [x])]"
| "dict_append k x ((k', xs) # d) =
     (if k' = k then (k', xs @ [x]) # d else (k', xs) # dict_append k x d)"

subsection \<open>The reverse mapping (lines 16 to 20)\<close>

type_synonym words_data = "(string, string list) dict"
type_synonym categories = "(string, string list) dict"

text \<open>The inner loop: \<open>for category in word_categories\<close>.\<close>

fun add_word :: "string \<Rightarrow> string list \<Rightarrow> categories \<Rightarrow> categories" where
  "add_word word [] categories = categories"
| "add_word word (category # word_categories) categories =
     add_word word word_categories (dict_append category word categories)"

text \<open>The outer loop: \<open>for word, word_categories in words_data.items()\<close>.\<close>

fun add_words :: "words_data \<Rightarrow> categories \<Rightarrow> categories" where
  "add_words [] categories = categories"
| "add_words ((word, word_categories) # words_data) categories =
     add_words words_data (add_word word word_categories categories)"

definition build_categories :: "words_data \<Rightarrow> categories" where
  "build_categories words_data = add_words words_data []"

subsection \<open>The thin categories (lines 22 to 47)\<close>

text \<open>\<open>str.startswith\<close> is the prefix order on strings.\<close>

definition startswith :: "string \<Rightarrow> string \<Rightarrow> bool" where
  "startswith s p = prefix p s"

text \<open>The loop of lines 24 to 30, with the dictionary \<open>small_categories\<close> as
  accumulator.\<close>

fun small_loop :: "categories \<Rightarrow> categories \<Rightarrow> categories" where
  "small_loop [] small = small"
| "small_loop ((category, words) # categories) small =
     small_loop categories
       (if length words < 4
           \<and> \<not> startswith category ''Starts with''
           \<and> \<not> startswith category ''Ends with''
        then dict_set category words small else small)"

definition small_categories :: "categories \<Rightarrow> categories" where
  "small_categories categories = small_loop categories []"

text \<open>\<open>sorted(small_categories.items(), key=lambda x: len(x[1]))\<close>: Python's
  \<open>sorted\<close> is a stable sort, as the insertion sort \<^const>\<open>sort_key\<close> is.\<close>

definition sorted_small_categories :: "categories \<Rightarrow> (string \<times> string list) list" where
  "sorted_small_categories categories =
     sort_key (\<lambda>x. length (snd x)) (small_categories categories)"

text \<open>The loop of lines 45 to 47 builds the dictionary that is written to
  \<open>data/thin_categories.json\<close>.\<close>

fun thin_loop :: "(string \<times> string list) list \<Rightarrow> categories \<Rightarrow> categories" where
  "thin_loop [] thin = thin"
| "thin_loop ((category, words) # rest) thin =
     thin_loop rest (dict_set category words thin)"

definition thin_categories :: "categories \<Rightarrow> categories" where
  "thin_categories categories = thin_loop (sorted_small_categories categories) []"

subsection \<open>The summary statistics (lines 56 to 81)\<close>

definition total_categories :: "categories \<Rightarrow> nat" where
  "total_categories categories =
     length [c \<leftarrow> map fst categories.
       \<not> startswith c ''Starts with'' \<and> \<not> startswith c ''Ends with'']"

text \<open>The condition of lines 69 to 72 ranges over all keys of the dictionary,
  whatever the word list \<open>w\<close> at hand.\<close>

definition usable_categories :: "categories \<Rightarrow> nat" where
  "usable_categories categories =
     length [w \<leftarrow> map snd categories.
       length w \<ge> 4
       \<and> \<not> list_ex (\<lambda>c. startswith c ''Starts with'' \<or> startswith c ''Ends with'')
             (map fst categories)]"

datatype py_error = ZeroDivisionError

text \<open>\<open>usable_categories/total_categories*100\<close>: the division raises when the
  divisor is zero. The value is the exact quotient; the script computes it in
  double precision and prints it with one decimal.\<close>

definition usable_percentage :: "nat \<Rightarrow> nat \<Rightarrow> py_error + rat" where
  "usable_percentage n_usable n_total =
     (if n_total = 0 then Inl ZeroDivisionError
      else Inr (of_nat n_usable / of_nat n_total * 100))"

text \<open>A run: the list that is printed, the dictionary that is written to the
  output file, the three counts of the summary, which are printed before the
  percentage is computed, and the percentage or the error that ends the run.\<close>

record run =
  listed :: "(string \<times> string list) list"
  written :: categories
  total_count :: nat
  usable_count :: nat
  thin_count :: nat
  percentage :: "py_error + rat"

definition analyze_categories :: "words_data \<Rightarrow> run" where
  "analyze_categories words_data =
     (let categories = build_categories words_data;
          sorted_small = sorted_small_categories categories;
          n_total = total_categories categories;
          n_usable = usable_categories categories
      in \<lparr>listed = sorted_small,
          written = thin_categories categories,
          total_count = n_total,
          usable_count = n_usable,
          thin_count = length sorted_small,
          percentage = usable_percentage n_usable n_total\<rparr>)"

subsection \<open>Notions used in the statements\<close>

text \<open>The word list of a key, empty for a missing key.\<close>

definition lookup_words :: "('k, 'v list) dict \<Rightarrow> 'k \<Rightarrow> 'v list" where
  "lookup_words d k = (case map_of d k of None \<Rightarrow> [] | Some xs \<Rightarrow> xs)"

text \<open>The words of the dataset that list category \<open>c\<close>, in the order in which
  the dataset is scanned, each as often as it lists \<open>c\<close>.\<close>

definition occurrences :: "string \<Rightarrow> words_data \<Rightarrow> string list" where
  "occurrences c words_data =
     concat (map (\<lambda>(w, cs). replicate (count_list cs c) w) words_data)"

section \<open>Properties\<close>

subsection \<open>The reverse mapping\<close>

lemma map_of_dict_append:
  "map_of (dict_append k x d) = (map_of d)(k \<mapsto> lookup_words d k @ [x])"
  by (induction d) (auto simp: fun_eq_iff lookup_words_def)

lemma keys_dict_append:
  "map fst (dict_append k x d) =
     (if k \<in> fst ` set d then map fst d else map fst d @ [k])"
  by (induction d) force+

lemma distinct_dict_append:
  "distinct (map fst d) \<Longrightarrow> distinct (map fst (dict_append k x d))"
  by (simp add: keys_dict_append)

lemma lookup_words_dict_append:
  "lookup_words (dict_append k x d) c = lookup_words d c @ (if c = k then [x] else [])"
  by (simp add: lookup_words_def map_of_dict_append)

lemma map_of_add_word:
  "map_of (add_word w cs d) c =
     (if c \<in> set cs then Some (lookup_words d c @ replicate (count_list cs c) w)
      else map_of d c)"
proof (induction cs arbitrary: d)
  case Nil
  show ?case by simp
next
  case (Cons a cs)
  show ?case
    by (simp add: Cons.IH lookup_words_dict_append map_of_dict_append replicate_append_same)
qed

lemma distinct_add_word:
  "distinct (map fst d) \<Longrightarrow> distinct (map fst (add_word w cs d))"
  by (induction cs arbitrary: d) (simp_all add: distinct_dict_append)

lemma lookup_words_add_word:
  "lookup_words (add_word w cs d) c = lookup_words d c @ replicate (count_list cs c) w"
  by (simp add: lookup_words_def [of "add_word w cs d"] map_of_add_word)
     (simp add: lookup_words_def)

lemma map_of_add_words:
  "map_of (add_words ds d) c =
     (if \<exists>(w, cs) \<in> set ds. c \<in> set cs then Some (lookup_words d c @ occurrences c ds)
      else map_of d c)"
proof (induction ds arbitrary: d)
  case Nil
  show ?case by simp
next
  case (Cons p ds)
  obtain w cs where p: "p = (w, cs)" by (cases p)
  show ?case
    unfolding p
    by (auto simp add: Cons.IH lookup_words_add_word map_of_add_word occurrences_def lookup_words_def)
qed

lemma distinct_add_words:
  "distinct (map fst d) \<Longrightarrow> distinct (map fst (add_words ds d))"
  by (induction ds arbitrary: d) (auto simp add: distinct_add_word)

lemma distinct_build_categories: "distinct (map fst (build_categories ds))"
  by (simp add: build_categories_def distinct_add_words)

lemma map_of_build_categories:
  "map_of (build_categories ds) c =
     (if \<exists>(w, cs) \<in> set ds. c \<in> set cs then Some (occurrences c ds) else None)"
  by (simp add: build_categories_def map_of_add_words lookup_words_def)

lemma occurrences_empty_iff:
  "occurrences c ds = [] \<longleftrightarrow> \<not> (\<exists>(w, cs) \<in> set ds. c \<in> set cs)"
  by (induction ds) (auto simp: occurrences_def count_list_0_iff)


lemma distinct_keys_filter:
  "distinct (map fst d) \<Longrightarrow> distinct (map fst (filter P d))"
  by (simp add: distinct_map_filter)

lemma distinct_keys_sort_key:
  "distinct (map fst d) \<Longrightarrow> distinct (map fst (sort_key f d))"
  by (simp add: distinct_map)

lemma entry_iff_map_of:
  "(c, ws) \<in> set (build_categories ds) \<longleftrightarrow> map_of (build_categories ds) c = Some ws"
  by (simp add: distinct_build_categories)

lemma count_list_distinct:
  "distinct xs \<Longrightarrow> count_list xs x = (if x \<in> set xs then 1 else 0)"
  by (induction xs) auto

lemma occurrences_distinct:
  "\<forall>(w, cs) \<in> set ds. distinct cs \<Longrightarrow>
   occurrences c ds = map fst (filter (\<lambda>(w, cs). c \<in> set cs) ds)"
  by (induction ds) (auto simp: occurrences_def count_list_distinct)

lemma count_list_keys:
  "distinct (map fst ds) \<Longrightarrow> (w, cs) \<in> set ds \<Longrightarrow> P (w, cs) \<Longrightarrow>
   count_list (map fst (filter P ds)) w = 1"
proof -
  assume d: "distinct (map fst ds)" and m: "(w, cs) \<in> set ds" and p: "P (w, cs)"
  have "distinct (map fst (filter P ds))" using d by (rule distinct_keys_filter)
  moreover have "w \<in> set (map fst (filter P ds))" using m p by force
  ultimately show ?thesis by (simp add: count_list_distinct)
qed

subsection \<open>The thin categories\<close>

lemma dict_set_new: "k \<notin> fst ` set d \<Longrightarrow> dict_set k v d = d @ [(k, v)]"
  by (induction d) auto

lemma small_loop_filter:
  "distinct (map fst small @ map fst categories) \<Longrightarrow>
   small_loop categories small =
     small @ filter (\<lambda>(c, ws). length ws < 4 \<and> \<not> startswith c ''Starts with''
                                \<and> \<not> startswith c ''Ends with'') categories"
proof (induction categories arbitrary: small)
  case Nil
  show ?case by simp
next
  case (Cons p categories)
  obtain c ws where p: "p = (c, ws)" by (cases p)
  from Cons.prems have new: "c \<notin> fst ` set small"
    and rest: "distinct (map fst small @ map fst categories)"
    and rest': "distinct (map fst (small @ [(c, ws)]) @ map fst categories)"
    by (auto simp: p)
  show ?case
    using Cons.IH [OF rest] Cons.IH [OF rest']
    by (simp add: p dict_set_new [OF new])
qed

lemma small_categories_filter:
  "distinct (map fst categories) \<Longrightarrow>
   small_categories categories =
     filter (\<lambda>(c, ws). length ws < 4 \<and> \<not> startswith c ''Starts with''
                                \<and> \<not> startswith c ''Ends with'') categories"
  by (simp add: small_categories_def small_loop_filter)

lemma thin_loop_append:
  "distinct (map fst thin @ map fst xs) \<Longrightarrow> thin_loop xs thin = thin @ xs"
proof (induction xs arbitrary: thin)
  case Nil
  show ?case by simp
next
  case (Cons p xs)
  obtain c ws where p: "p = (c, ws)" by (cases p)
  from Cons.prems have new: "c \<notin> fst ` set thin"
    and rest: "distinct (map fst (thin @ [(c, ws)]) @ map fst xs)"
    by (auto simp: p)
  show ?case
    using Cons.IH [OF rest] by (simp add: p dict_set_new [OF new])
qed

lemma thin_categories_sorted:
  "distinct (map fst categories) \<Longrightarrow>
   thin_categories categories = sorted_small_categories categories"
  by (simp add: thin_categories_def thin_loop_append sorted_small_categories_def
      small_categories_filter distinct_keys_filter distinct_keys_sort_key)

lemma listed_analyze:
  "listed (analyze_categories ds) = sorted_small_categories (build_categories ds)"
  by (simp add: analyze_categories_def Let_def)

lemma written_analyze:
  "written (analyze_categories ds) = sorted_small_categories (build_categories ds)"
  by (simp add: analyze_categories_def Let_def thin_categories_sorted
      distinct_build_categories)

lemma sorted_small_build:
  "sorted_small_categories (build_categories ds) =
     sort_key (\<lambda>x. length (snd x))
       (filter (\<lambda>(c, ws). length ws < 4 \<and> \<not> startswith c ''Starts with''
                              \<and> \<not> startswith c ''Ends with'') (build_categories ds))"
  by (simp add: sorted_small_categories_def small_categories_filter
      distinct_build_categories)

subsection \<open>The summary statistics\<close>

lemma keys_build_categories:
  "fst ` set (build_categories ds) = (\<Union>(w, cs) \<in> set ds. set cs)"
proof -
  have "fst ` set (build_categories ds) = dom (map_of (build_categories ds))"
    by (simp add: dom_map_of_conv_image_fst)
  also have "\<dots> = (\<Union>(w, cs) \<in> set ds. set cs)"
    by (auto simp: dom_def map_of_build_categories split: if_splits)
  finally show ?thesis .
qed

lemma total_categories_card:
  "total_categories (build_categories ds) =
     card {c \<in> (\<Union>(w, cs) \<in> set ds. set cs).
             \<not> startswith c ''Starts with'' \<and> \<not> startswith c ''Ends with''}"
proof -
  have "{c. \<not> startswith c ''Starts with'' \<and> \<not> startswith c ''Ends with''}
          \<inter> set (map fst (build_categories ds)) =
        {c \<in> (\<Union>(w, cs) \<in> set ds. set cs).
             \<not> startswith c ''Starts with'' \<and> \<not> startswith c ''Ends with''}"
    using keys_build_categories [of ds] by auto
  then show ?thesis
    unfolding total_categories_def
    using distinct_length_filter [OF distinct_build_categories, of _ ds] by simp
qed

text \<open>What lines 64 to 74 compute: as soon as one key of the dictionary starts
  with a reserved prefix the count is zero, otherwise every category with four
  or more words is counted.\<close>

lemma usable_categories_code:
  "usable_categories d =
     (if \<exists>c \<in> fst ` set d. startswith c ''Starts with'' \<or> startswith c ''Ends with''
      then 0 else length (filter (\<lambda>(c, ws). length ws \<ge> 4) d))"
proof -
  have "length (filter (\<lambda>w. 4 \<le> length w) (map snd d)) =
        length (filter (\<lambda>(c, ws). length ws \<ge> 4) d)"
    by (induction d) auto
  then show ?thesis
    by (auto simp: usable_categories_def list_ex_iff)
qed

lemma filter_keys_without:
  "\<not> P k \<Longrightarrow>
   filter P (map fst (filter (\<lambda>(c, ws). c \<noteq> k) d)) = filter P (map fst d)"
  by (induction d) auto

lemma startswith_A: "startswith ''Starts with A'' ''Starts with''"
  by (simp add: startswith_def)

section \<open>The claims\<close>

text \<open>
  C9 (non-empty-list invariant). For every dataset, every entry of the category
  index built by lines 16 to 20 has a word list with at least one element, and
  its category name is listed by at least one word of the dataset.
\<close>

theorem index_entries_nonempty:
  "(c, ws) \<in> set (build_categories ds) \<Longrightarrow>
   ws \<noteq> [] \<and> (\<exists>(w, cs) \<in> set ds. c \<in> set cs)"
  by (auto simp: entry_iff_map_of map_of_build_categories occurrences_empty_iff
      split: if_splits)

theorem index_entries_nonempty_witness:
  "(''Pet'', [''dog'', ''ant'']) \<in> set (build_categories
      [(''cat'', [''Fruit'']), (''dog'', [''Pet'']), (''ant'', [''Insect'', ''Pet''])])
   \<and> [''dog'', ''ant''] \<noteq> []
   \<and> (\<exists>(w, cs) \<in> set [(''cat'', [''Fruit'']), (''dog'', [''Pet'']),
                         (''ant'', [''Insect'', ''Pet''])]. ''Pet'' \<in> set cs)"
  using index_entries_nonempty [of "''Pet''" "[''dog'', ''ant'']"
      "[(''cat'', [''Fruit'']), (''dog'', [''Pet'']), (''ant'', [''Insect'', ''Pet''])]"]
  by (simp add: build_categories_def)

text \<open>
  C3 (index completeness). Let the dataset be a dictionary (its words are
  pairwise different) in which no word lists a category twice. For every word
  \<open>w\<close> of the dataset and every category \<open>c\<close> that \<open>w\<close> lists, the category index
  has exactly one entry for \<open>c\<close>, the word list of that entry contains \<open>w\<close> exactly
  once, and the word list is, in the order of the scan, the words of the dataset
  that list \<open>c\<close>.
\<close>

theorem index_complete:
  assumes "distinct (map fst ds)"
    and "\<forall>(w, cs) \<in> set ds. distinct cs"
    and "(w, cs) \<in> set ds"
    and "c \<in> set cs"
  shows "\<exists>ws. (c, ws) \<in> set (build_categories ds)
           \<and> (\<forall>ws'. (c, ws') \<in> set (build_categories ds) \<longrightarrow> ws' = ws)
           \<and> count_list ws w = 1
           \<and> ws = map fst (filter (\<lambda>(w', cs'). c \<in> set cs') ds)"
proof -
  let ?ws = "map fst (filter (\<lambda>(w', cs'). c \<in> set cs') ds)"
  have listed: "\<exists>(w, cs) \<in> set ds. c \<in> set cs"
    using assms(3,4) by blast
  have "map_of (build_categories ds) c = Some ?ws"
    using listed by (simp add: map_of_build_categories occurrences_distinct [OF assms(2)])
  moreover have "count_list ?ws w = 1"
    using assms(1,3) by (rule count_list_keys) (simp add: assms(4))
  ultimately show ?thesis
    by (simp add: entry_iff_map_of)
qed

theorem index_complete_witness:
  "distinct (map fst [(''cat'', [''Fruit'']), (''dog'', [''Pet'']), (''ant'', [''Insect'', ''Pet''])])
   \<and> list_all (\<lambda>(w, cs). distinct cs) [(''cat'', [''Fruit'']), (''dog'', [''Pet'']),
                         (''ant'', [''Insect'', ''Pet''])]
   \<and> (''ant'', [''Insect'', ''Pet'']) \<in> set [(''cat'', [''Fruit'']), (''dog'', [''Pet'']),
                         (''ant'', [''Insect'', ''Pet''])]
   \<and> ''Pet'' \<in> set [''Insect'', ''Pet'']
   \<and> (''Pet'', [''dog'', ''ant'']) \<in> set (build_categories
        [(''cat'', [''Fruit'']), (''dog'', [''Pet'']), (''ant'', [''Insect'', ''Pet''])])
   \<and> count_list [''dog'', ''ant''] ''ant'' = 1"
  using index_complete [of "[(''cat'', [''Fruit'']), (''dog'', [''Pet'']), (''ant'', [''Insect'', ''Pet''])]"
      "''ant''" "[''Insect'', ''Pet'']" "''Pet''"]
  by (simp add: build_categories_def)

text \<open>
  C2 (thin-filter correctness). For every dataset and every pair of a category
  and a word list, the pair is in the dictionary written to the output file,
  and in the list that is printed, if and only if it is an entry of the category
  index, the word list has fewer than four words, and the category name starts
  with neither \<open>Starts with\<close> nor \<open>Ends with\<close>.
\<close>

theorem thin_filter_correct:
  "((c, ws) \<in> set (written (analyze_categories ds)) \<longleftrightarrow>
      (c, ws) \<in> set (build_categories ds) \<and> length ws < 4
      \<and> \<not> startswith c ''Starts with'' \<and> \<not> startswith c ''Ends with'')
   \<and> ((c, ws) \<in> set (listed (analyze_categories ds)) \<longleftrightarrow>
      (c, ws) \<in> set (build_categories ds) \<and> length ws < 4
      \<and> \<not> startswith c ''Starts with'' \<and> \<not> startswith c ''Ends with'')"
  by (simp add: written_analyze listed_analyze sorted_small_build)

theorem thin_filter_correct_witness:
  "(''Pet'', [''dog'', ''ant'']) \<in> set (written (analyze_categories
      [(''dog'', [''Pet'', ''Starts with D'']), (''ant'', [''Pet''])]))
   \<and> (''Starts with D'', [''dog'']) \<notin> set (written (analyze_categories
      [(''dog'', [''Pet'', ''Starts with D'']), (''ant'', [''Pet''])]))"
  using thin_filter_correct [of "''Pet''" "[''dog'', ''ant'']"
      "[(''dog'', [''Pet'', ''Starts with D'']), (''ant'', [''Pet''])]"]
    thin_filter_correct [of "''Starts with D''" "[''dog'']"
      "[(''dog'', [''Pet'', ''Starts with D'']), (''ant'', [''Pet''])]"]
  by (simp add: build_categories_def startswith_def)

text \<open>
  C4 (sort order). For every dataset, the word-list lengths along the printed
  list of thin categories never decrease, the dictionary written to the output
  file has the same entries in the same order as the printed list, and for every
  length \<open>k\<close> the thin categories with \<open>k\<close> words stand in the printed list in the
  order in which the category index first met them.
\<close>

theorem thin_sorted_stable:
  "sorted (map (\<lambda>x. length (snd x)) (listed (analyze_categories ds)))
   \<and> written (analyze_categories ds) = listed (analyze_categories ds)
   \<and> filter (\<lambda>x. length (snd x) = k) (listed (analyze_categories ds)) =
       filter (\<lambda>(c, ws). length ws = k \<and> length ws < 4
                 \<and> \<not> startswith c ''Starts with'' \<and> \<not> startswith c ''Ends with'')
         (build_categories ds)"
proof -
  have "filter (\<lambda>x. length (snd x) = k) (sorted_small_categories (build_categories ds)) =
       filter (\<lambda>(c, ws). length ws = k \<and> length ws < 4
                 \<and> \<not> startswith c ''Starts with'' \<and> \<not> startswith c ''Ends with'')
         (build_categories ds)"
    unfolding sorted_small_build sort_key_stable
    by (auto intro: filter_cong)
  then show ?thesis
    by (simp add: written_analyze listed_analyze)
       (simp add: sorted_small_categories_def)
qed

theorem thin_sorted_stable_witness:
  "listed (analyze_categories
      [(''dog'', [''Pet'', ''Mammal'']), (''ant'', [''Pet'', ''Insect''])]) =
     [(''Mammal'', [''dog'']), (''Insect'', [''ant'']), (''Pet'', [''dog'', ''ant''])]
   \<and> written (analyze_categories
      [(''dog'', [''Pet'', ''Mammal'']), (''ant'', [''Pet'', ''Insect''])]) =
     [(''Mammal'', [''dog'']), (''Insect'', [''ant'']), (''Pet'', [''dog'', ''ant''])]"
  using thin_sorted_stable [of
      "[(''dog'', [''Pet'', ''Mammal'']), (''ant'', [''Pet'', ''Insect''])]" 1]
  by (simp add: analyze_categories_def build_categories_def sorted_small_categories_def
      small_categories_def thin_categories_def startswith_def Let_def)

text \<open>
  C7 (concrete scenario). For the dataset with \<open>cat\<close> in \<open>Fruit\<close>, \<open>dog\<close> in \<open>Pet\<close>
  and \<open>ant\<close> in \<open>Insect\<close> and \<open>Pet\<close>, the thin categories are \<open>Fruit\<close> with \<open>cat\<close>,
  \<open>Insect\<close> with \<open>ant\<close> and \<open>Pet\<close> with \<open>dog\<close> and \<open>ant\<close>, in that order, and the
  summary has total 3, usable 0, thin 3 and percentage 0.
\<close>

theorem scenario:
  "analyze_categories
     [(''cat'', [''Fruit'']), (''dog'', [''Pet'']), (''ant'', [''Insect'', ''Pet''])] =
   \<lparr>listed = [(''Fruit'', [''cat'']), (''Insect'', [''ant'']), (''Pet'', [''dog'', ''ant''])],
    written = [(''Fruit'', [''cat'']), (''Insect'', [''ant'']), (''Pet'', [''dog'', ''ant''])],
    total_count = 3, usable_count = 0, thin_count = 3, percentage = Inr 0\<rparr>"
  by (simp add: analyze_categories_def build_categories_def sorted_small_categories_def
      small_categories_def thin_categories_def total_categories_def usable_categories_def
      usable_percentage_def startswith_def Let_def eval_nat_numeral)

text \<open>
  C8 (exclusion scenario). For every dataset whose category index has the
  category \<open>Starts with A\<close> with exactly one word, that category is a key neither
  of the dictionary written to the output file nor of the printed list, and the
  total count and the thin count of the summary are those of the category index
  without that category.
\<close>

theorem reserved_category_not_counted:
  assumes "(''Starts with A'', [w]) \<in> set (build_categories ds)"
  shows "''Starts with A'' \<notin> fst ` set (written (analyze_categories ds))
       \<and> ''Starts with A'' \<notin> fst ` set (listed (analyze_categories ds))
       \<and> total_count (analyze_categories ds) =
           total_categories (filter (\<lambda>(c, ws). c \<noteq> ''Starts with A'') (build_categories ds))
       \<and> thin_count (analyze_categories ds) =
           length (sorted_small_categories
             (filter (\<lambda>(c, ws). c \<noteq> ''Starts with A'') (build_categories ds)))"
proof -
  let ?d = "build_categories ds"
  let ?d' = "filter (\<lambda>(c, ws). c \<noteq> ''Starts with A'') ?d"
  have out: "''Starts with A'' \<notin> fst ` set (sorted_small_categories ?d)"
    using startswith_A by (auto simp: sorted_small_build)
  have "filter (\<lambda>c. \<not> startswith c ''Starts with'' \<and> \<not> startswith c ''Ends with'')
          (map fst ?d') =
        filter (\<lambda>c. \<not> startswith c ''Starts with'' \<and> \<not> startswith c ''Ends with'')
          (map fst ?d)"
    using startswith_A by (intro filter_keys_without) simp
  then have tot: "total_categories ?d' = total_categories ?d"
    by (simp add: total_categories_def)
  have "small_categories ?d' = small_categories ?d"
    using startswith_A
    by (auto simp: small_categories_filter distinct_build_categories distinct_keys_filter
        intro: filter_cong)
  then have thn: "length (sorted_small_categories ?d') = length (sorted_small_categories ?d)"
    by (simp add: sorted_small_categories_def)
  show ?thesis
    using out tot thn
    by (simp add: written_analyze listed_analyze)
       (simp add: analyze_categories_def Let_def)
qed

theorem reserved_category_not_counted_witness:
  "(''Starts with A'', [''apple'']) \<in> set (build_categories
      [(''apple'', [''Starts with A'', ''Fruit'']), (''pear'', [''Fruit''])])
   \<and> written (analyze_categories
      [(''apple'', [''Starts with A'', ''Fruit'']), (''pear'', [''Fruit''])]) =
      [(''Fruit'', [''apple'', ''pear''])]
   \<and> total_count (analyze_categories
      [(''apple'', [''Starts with A'', ''Fruit'']), (''pear'', [''Fruit''])]) = 1
   \<and> thin_count (analyze_categories
      [(''apple'', [''Starts with A'', ''Fruit'']), (''pear'', [''Fruit''])]) = 1"
  using reserved_category_not_counted [of "''apple''"
      "[(''apple'', [''Starts with A'', ''Fruit'']), (''pear'', [''Fruit''])]"]
  by (simp add: analyze_categories_def build_categories_def sorted_small_categories_def
      small_categories_def thin_categories_def total_categories_def startswith_def
      Let_def eval_nat_numeral)

text \<open>
  C6 (division by zero). For every dataset, the percentage computation ends in
  \<open>ZeroDivisionError\<close> if and only if the number of categories of the dataset
  whose names start with neither \<open>Starts with\<close> nor \<open>Ends with\<close> is zero, and in
  every other case it yields a value. Reading the input and writing the output
  file are not part of the model.
\<close>

theorem zero_division_iff:
  "(percentage (analyze_categories ds) = Inl ZeroDivisionError \<longleftrightarrow>
      card {c \<in> (\<Union>(w, cs) \<in> set ds. set cs).
             \<not> startswith c ''Starts with'' \<and> \<not> startswith c ''Ends with''} = 0)
   \<and> (percentage (analyze_categories ds) \<noteq> Inl ZeroDivisionError \<longleftrightarrow>
      (\<exists>p. percentage (analyze_categories ds) = Inr p))"
  by (simp add: analyze_categories_def Let_def usable_percentage_def
      total_categories_card)

theorem zero_division_iff_witness:
  "percentage (analyze_categories []) = Inl ZeroDivisionError
   \<and> percentage (analyze_categories [(''apple'', [''Starts with A''])]) =
       Inl ZeroDivisionError
   \<and> percentage (analyze_categories [(''apple'', [''Starts with A'', ''Fruit''])]) =
       Inr 0"
  using zero_division_iff [of "[]"]
    zero_division_iff [of "[(''apple'', [''Starts with A''])]"]
    zero_division_iff [of "[(''apple'', [''Starts with A'', ''Fruit''])]"]
  by (simp add: analyze_categories_def build_categories_def total_categories_def
      usable_categories_def usable_percentage_def startswith_def Let_def)

text \<open>
  C1 (summary statistics). The claim asks that the usable count be the number
  of categories with four or more words whose own names start with no reserved
  prefix, and that usable and thin add up to the total. On the dataset with \<open>a\<close>
  in \<open>X\<close> and \<open>Starts with A\<close> and \<open>b\<close>, \<open>c\<close>, \<open>d\<close> in \<open>X\<close>, the category \<open>X\<close> has
  four words and no reserved prefix, yet the script prints total 1, usable 0 and
  thin 0.
\<close>

theorem usable_count_ignores_own_name:
  "build_categories
     [(''a'', [''X'', ''Starts with A'']), (''b'', [''X'']), (''c'', [''X'']), (''d'', [''X''])] =
     [(''X'', [''a'', ''b'', ''c'', ''d'']), (''Starts with A'', [''a''])]
   \<and> analyze_categories
     [(''a'', [''X'', ''Starts with A'']), (''b'', [''X'']), (''c'', [''X'']), (''d'', [''X''])] =
     \<lparr>listed = [], written = [],
      total_count = 1, usable_count = 0, thin_count = 0, percentage = Inr 0\<rparr>"
  by (simp add: analyze_categories_def build_categories_def sorted_small_categories_def
      small_categories_def thin_categories_def total_categories_def usable_categories_def
      usable_percentage_def startswith_def Let_def eval_nat_numeral)

end
